theory Spec2Isabelle
  imports Complex_Main "HOL-Library.Sublist"
begin

section \<open>Values and strings of the runtime\<close>

text \<open>
  A JSON value as \<^verbatim>\<open>JSON.parse\<close> delivers it. An object is the list of its own
  properties (keys distinct); a number is a rational, which every finite double is.
  A JavaScript value that may be \<^verbatim>\<open>undefined\<close> is a \<open>json option\<close>, with \<open>None\<close>
  for \<^verbatim>\<open>undefined\<close>. Strings are sequences of code units below 256.
\<close>

datatype json =
    JNull
  | JBool bool
  | JNum rat
  | JStr string
  | JArr "json list"
  | JObj "(string \<times> json) list"

text \<open>The single error of the handlers' bodies: a \<^verbatim>\<open>TypeError\<close> thrown by a property
  read on \<^verbatim>\<open>undefined\<close> or \<^verbatim>\<open>null\<close>, or by calling something that is not a function.\<close>

datatype js_error = TypeError

text \<open>\<^verbatim>\<open>Array.prototype.join\<close> on an array of strings.\<close>

fun join :: "string \<Rightarrow> string list \<Rightarrow> string" where
  "join sep [] = []"
| "join sep [x] = x"
| "join sep (x # y # ys) = x @ sep @ join sep (y # ys)"

text \<open>\<^verbatim>\<open>JSON.stringify\<close> of an object literal, as \<^verbatim>\<open>res.json\<close> applies it: a property
  whose value is \<^verbatim>\<open>undefined\<close> is left out, the others keep their order.\<close>

fun stringify_object :: "(string \<times> json option) list \<Rightarrow> (string \<times> json) list" where
  "stringify_object [] = []"
| "stringify_object ((k, None) # kvs) = stringify_object kvs"
| "stringify_object ((k, Some v) # kvs) = (k, v) # stringify_object kvs"

section \<open>Responses\<close>

text \<open>A response body: JSON, an audio buffer, or the HTML page of the framework's
  default error handler.\<close>

datatype response_body = JsonBody json | AudioBody string | HtmlErrorPage

record http_response =
  status :: nat
  body :: response_body

text \<open>\<^verbatim>\<open>res.json(obj)\<close>: status 200.\<close>

definition res_json :: "(string \<times> json option) list \<Rightarrow> http_response" where
  "res_json obj = \<lparr>status = 200, body = JsonBody (JObj (stringify_object obj))\<rparr>"

text \<open>\<^verbatim>\<open>res.status(500).json({ error: msg })\<close>.\<close>

definition res_error :: "string \<Rightarrow> http_response" where
  "res_error msg = \<lparr>status = 500, body = JsonBody (JObj [(''error'', JStr msg)])\<rparr>"

section \<open>Catalog query builder: \<^verbatim>\<open>POST /api/search-products\<close>\<close>

text \<open>The request body \<^verbatim>\<open>{ query, category, tags }\<close>, each field optional; \<open>None\<close> is an
  absent field.\<close>

record search_body =
  query :: "string option"
  category :: "string option"
  tags :: "string list option"

text \<open>Lines 51 to 62 of \<^verbatim>\<open>server.js\<close>. \<^verbatim>\<open>if (category)\<close> holds for a non-empty string;
  \<^verbatim>\<open>tags && tags.length > 0\<close> for a non-empty array.\<close>

definition filterFormula :: "search_body \<Rightarrow> string" where
  "filterFormula b =
    (let f0 = ''AND({in_stock} = TRUE()'';
         f1 = (case category b of
                 None \<Rightarrow> f0
               | Some c \<Rightarrow>
                   if c \<noteq> [] then f0 @ '', {category} = '' @ [CHR 0x27] @ c @ [CHR 0x27]
                   else f0);
         f2 = (case tags b of
                 None \<Rightarrow> f1
               | Some ts \<Rightarrow>
                   if length ts > 0
                   then f1 @ '', OR('' @
                        join '', '' (map (\<lambda>tag. ''FIND('' @ [CHR 0x27] @ tag @ ''', {tags})'') ts)
                        @ '')''
                   else f1)
     in f2 @ '')'')"

text \<open>The argument of \<^verbatim>\<open>base('Products').select\<close>, lines 65 to 69.\<close>

record select_params =
  filterByFormula :: string
  maxRecords :: nat
  sort_fields :: "(string \<times> string) list"

definition select_of :: "search_body \<Rightarrow> select_params" where
  "select_of b =
    \<lparr>filterByFormula = filterFormula b, maxRecords = 10, sort_fields = [(''title'', ''asc'')]\<rparr>"

text \<open>A record of the store: its id and its cells. \<^verbatim>\<open>record.get(name)\<close> is the cell, or
  \<^verbatim>\<open>undefined\<close> when the record has none of that name.\<close>

record store_record =
  rec_id :: string
  rec_fields :: "(string \<times> json) list"

definition record_get :: "store_record \<Rightarrow> string \<Rightarrow> json option" where
  "record_get r name = map_of (rec_fields r) name"

text \<open>The promise of \<^verbatim>\<open>.all()\<close>: rejected, or resolved with the records.\<close>

datatype store_reply = StoreError | Records "store_record list"

text \<open>The object literal of lines 72 to 86, as the list of its properties.\<close>

definition product_of :: "store_record \<Rightarrow> (string \<times> json option) list" where
  "product_of r =
    [(''id'', Some (JStr (rec_id r))),
     (''product_id'', record_get r ''product_id''),
     (''title'', record_get r ''title''),
     (''brand'', record_get r ''brand''),
     (''category'', record_get r ''category''),
     (''tags'', record_get r ''tags''),
     (''short_description'', record_get r ''short_description''),
     (''price'', record_get r ''price''),
     (''bag_size_cf'', record_get r ''bag-size-cf''),
     (''in_stock'', record_get r ''in_stock''),
     (''image_url'', record_get r ''image_url''),
     (''use_case'', record_get r ''use-case''),
     (''voice_script_30S'', record_get r ''voice_script_30S'')]"

text \<open>The array \<^verbatim>\<open>products\<close> as \<^verbatim>\<open>res.json\<close> serialises it.\<close>

definition products_json :: "store_record list \<Rightarrow> json" where
  "products_json records = JArr (map (\<lambda>r. JObj (stringify_object (product_of r))) records)"

text \<open>The handler, lines 47 to 93. \<open>reply\<close> is what the store answers to the one query the
  handler sends; the result is the list of queries sent, and the response.\<close>

definition search_products ::
  "search_body \<Rightarrow> store_reply \<Rightarrow> select_params list \<times> http_response" where
  "search_products b reply =
    (let params = select_of b in
     case reply of
       StoreError \<Rightarrow> ([params], res_error ''Product search failed'')
     | Records records \<Rightarrow>
         ([params], res_json [(''products'', Some (products_json records))]))"

text \<open>The filter expression as the specification words it: a conjunction of the
  in-stock clause, an equality clause on the category, and a disjunction of one
  containment predicate per tag; \<open>render\<close> writes it in the store's formula syntax.\<close>

datatype formula =
    InStock
  | CategoryEq string
  | FindTag string
  | Or "formula list"
  | And "formula list"

fun render :: "formula \<Rightarrow> string" where
  "render InStock = ''{in_stock} = TRUE()''"
| "render (CategoryEq c) = ''{category} = '' @ [CHR 0x27] @ c @ [CHR 0x27]"
| "render (FindTag t) = ''FIND('' @ [CHR 0x27] @ t @ ''', {tags})''"
| "render (Or fs) = ''OR('' @ join '', '' (map render fs) @ '')''"
| "render (And fs) = ''AND('' @ join '', '' (map render fs) @ '')''"

text \<open>The category clause of the specification's filter: present for a category that
  \<^verbatim>\<open>if (category)\<close> accepts.\<close>

definition category_clause :: "string option \<Rightarrow> formula list" where
  "category_clause c = (case c of None \<Rightarrow> [] | Some v \<Rightarrow> if v = [] then [] else [CategoryEq v])"

text \<open>The number of single-quote characters of a string. The builder delimits its
  literals with single quotes; a string with an odd number of them leaves a literal
  open.\<close>

definition quote_count :: "string \<Rightarrow> nat" where
  "quote_count s = length (filter (\<lambda>c. c = CHR 0x27) s)"

definition unterminated_literal :: "string \<Rightarrow> bool" where
  "unterminated_literal s = odd (quote_count s)"

section \<open>Provider calls and property reads\<close>

text \<open>What a provider answers to \<^verbatim>\<open>axios.post\<close>: no answer at all, or a status and a
  body. The promise is rejected unless the status is 2xx (the library's default
  \<^verbatim>\<open>validateStatus\<close>).\<close>

datatype 'a provider_reply = NetworkError | HttpReply nat 'a

datatype axios_error = AxiosError

definition axios_post :: "'a provider_reply \<Rightarrow> axios_error + 'a" where
  "axios_post r =
    (case r of
       NetworkError \<Rightarrow> Inl AxiosError
     | HttpReply st d \<Rightarrow> if 200 \<le> st \<and> st < 300 then Inr d else Inl AxiosError)"


text \<open>Sequencing of steps that may throw.\<close>

definition and_then :: "js_error + 'a \<Rightarrow> ('a \<Rightarrow> js_error + 'b) \<Rightarrow> js_error + 'b" where
  "and_then r f = (case r of Inl e \<Rightarrow> Inl e | Inr v \<Rightarrow> f v)"

text \<open>The read \<^verbatim>\<open>v.k\<close> of a named property, for the names the handlers read (none of
  them a built-in property of arrays, strings, numbers or booleans): it throws on
  \<^verbatim>\<open>undefined\<close> and \<^verbatim>\<open>null\<close>, and is \<^verbatim>\<open>undefined\<close> where the value has no such
  property.\<close>

definition get_prop :: "string \<Rightarrow> json option \<Rightarrow> js_error + json option" where
  "get_prop k v =
    (case v of
       None \<Rightarrow> Inl TypeError
     | Some JNull \<Rightarrow> Inl TypeError
     | Some (JObj kvs) \<Rightarrow> Inr (map_of kvs k)
     | Some _ \<Rightarrow> Inr None)"

text \<open>The read \<^verbatim>\<open>v[0]\<close>: the first element of an array, the first code unit of a
  string, the property \<^verbatim>\<open>"0"\<close> of an object.\<close>

definition elem0 :: "json option \<Rightarrow> js_error + json option" where
  "elem0 v =
    (case v of
       None \<Rightarrow> Inl TypeError
     | Some JNull \<Rightarrow> Inl TypeError
     | Some (JArr xs) \<Rightarrow> Inr (case xs of [] \<Rightarrow> None | x # _ \<Rightarrow> Some x)
     | Some (JStr s) \<Rightarrow> Inr (case s of [] \<Rightarrow> None | c # _ \<Rightarrow> Some (JStr [c]))
     | Some (JObj kvs) \<Rightarrow> Inr (map_of kvs ''0'')
     | Some _ \<Rightarrow> Inr None)"

section \<open>Transcription relay: \<^verbatim>\<open>POST /api/transcribe\<close>\<close>

text \<open>Line 38: \<^verbatim>\<open>response.data.results.channels[0].alternatives[0].transcript\<close>.\<close>

definition transcript_of :: "json \<Rightarrow> js_error + json option" where
  "transcript_of data =
    and_then (and_then (and_then (and_then (and_then
      (get_prop ''results'' (Some data))
      (get_prop ''channels''))
      elem0)
      (get_prop ''alternatives''))
      elem0)
      (get_prop ''transcript'')"

text \<open>The handler, lines 23 to 44. \<open>file\<close> is the buffer of \<^verbatim>\<open>req.file\<close>, \<open>None\<close> when
  the upload middleware let the request through and left \<^verbatim>\<open>req.file\<close> undefined;
  \<open>reply\<close> is what the provider answers if it is called. The result is the list of audio
  buffers posted to the provider, and the response.\<close>

definition transcribe ::
  "string option \<Rightarrow> json provider_reply \<Rightarrow> string list \<times> http_response" where
  "transcribe file reply =
    (case file of
       None \<Rightarrow> ([], res_error ''Transcription failed'')
     | Some audioBuffer \<Rightarrow>
         (case axios_post reply of
            Inl _ \<Rightarrow> ([audioBuffer], res_error ''Transcription failed'')
          | Inr data \<Rightarrow>
              (case transcript_of data of
                 Inl _ \<Rightarrow> ([audioBuffer], res_error ''Transcription failed'')
               | Inr transcript \<Rightarrow>
                   ([audioBuffer], res_json [(''transcript'', transcript)]))))"

text \<open>The upload middleware \<^verbatim>\<open>upload.single('audio')\<close> of line 23, which runs before the
  handler. It reads the file parts of a multipart body in order, each a field name and
  a content (a body that is not multipart has none), and accepts at most one, under the given field name: a file part
  under another name, or a second one, ends the request with a \<^verbatim>\<open>MulterError\<close>.
  Otherwise \<^verbatim>\<open>req.file\<close> is the accepted part, or stays undefined.\<close>

datatype upload_result = MulterError | Uploaded "string option"

fun upload_from :: "string \<Rightarrow> nat \<Rightarrow> string option \<Rightarrow> (string \<times> string) list \<Rightarrow> upload_result" where
  "upload_from field filesLeft file [] = Uploaded file"
| "upload_from field filesLeft file ((name, content) # parts) =
    (if name = field \<and> 0 < filesLeft
     then upload_from field (filesLeft - 1) (Some content) parts
     else MulterError)"

definition upload_single :: "string \<Rightarrow> (string \<times> string) list \<Rightarrow> upload_result" where
  "upload_single field parts = upload_from field 1 None parts"

text \<open>The route of line 23: the middleware, then the handler. An error of the middleware
  never reaches the handler's \<^verbatim>\<open>catch\<close>; the framework's default error handler
  answers it with status 500 and an HTML page.\<close>

definition post_transcribe ::
  "(string \<times> string) list \<Rightarrow> json provider_reply \<Rightarrow> string list \<times> http_response" where
  "post_transcribe parts reply =
    (case upload_single ''audio'' parts of
       MulterError \<Rightarrow> ([], \<lparr>status = 500, body = HtmlErrorPage\<rparr>)
     | Uploaded file \<Rightarrow> transcribe file reply)"

section \<open>Conversation responder: \<^verbatim>\<open>POST /api/get-response\<close>\<close>

text \<open>The request body, typed as the interface documents it: a string, an array of
  turns and an array of products, the turns and products being any JSON values.\<close>

record chat_body =
  userMessage :: string
  conversationHistory :: "json list"
  availableProducts :: "json list"

text \<open>Lines 100 to 114. \<open>products_text\<close> is the text that
  \<^verbatim>\<open>JSON.stringify(availableProducts, null, 2)\<close> yields, number formatting included.\<close>

definition systemPrompt :: "string \<Rightarrow> chat_body \<Rightarrow> string" where
  "systemPrompt products_text b =
    ''You are a helpful garden center employee specializing in soil products. \<newline>'' @
    ''Your job is to help customers find the right soil products for their needs.\<newline>'' @
    ''\<newline>'' @
    ''Available products:\<newline>'' @
    products_text @ ''\<newline>'' @
    ''\<newline>'' @
    ''Guidelines:\<newline>'' @
    ''- Be friendly, warm, and patient (many customers are 55-70 years old)\<newline>'' @
    ''- Ask clarifying questions if needed (indoor/outdoor, vegetables/flowers, containers/beds)\<newline>'' @
    ''- Recommend specific products from the available list\<newline>'' @
    ''- Mention key benefits (drainage, nutrients, organic, etc.)\<newline>'' @
    ''- Keep responses concise (2-4 sentences)\<newline>'' @
    ''- If you don't know something, offer to get a staff member\<newline>'' @
    ''\<newline>'' @
    ''Current customer question: '' @ userMessage b"

text \<open>Lines 116 to 120.\<close>

definition messages_of :: "string \<Rightarrow> chat_body \<Rightarrow> json list" where
  "messages_of products_text b =
    [JObj [(''role'', JStr ''system''), (''content'', JStr (systemPrompt products_text b))]]
    @ conversationHistory b
    @ [JObj [(''role'', JStr ''user''), (''content'', JStr (userMessage b))]]"

text \<open>The body posted to the chat endpoint, lines 124 to 129.\<close>

record chat_request =
  model :: string
  messages :: "json list"
  temperature :: rat
  max_tokens :: nat

definition chat_request_of :: "string \<Rightarrow> chat_body \<Rightarrow> chat_request" where
  "chat_request_of products_text b =
    \<lparr>model = ''gpt-4o-mini'', messages = messages_of products_text b,
     temperature = 7 / 10, max_tokens = 300\<rparr>"

text \<open>Line 138: \<^verbatim>\<open>response.data.choices[0].message.content\<close>.\<close>

definition content_of :: "json \<Rightarrow> js_error + json option" where
  "content_of data =
    and_then (and_then (and_then
      (get_prop ''choices'' (Some data))
      elem0)
      (get_prop ''message''))
      (get_prop ''content'')"

text \<open>\<^verbatim>\<open>String.prototype.toLowerCase\<close> on code units below 256: the letters A to Z and
  the capital letters of Latin-1 (192 to 222 but the multiplication sign 215) move up
  by 32.\<close>

definition lower_unit :: "char \<Rightarrow> char" where
  "lower_unit c =
    (let n = of_char c :: nat in
     if (65 \<le> n \<and> n \<le> 90) \<or> (192 \<le> n \<and> n \<le> 222 \<and> n \<noteq> 215)
     then char_of (n + 32) else c)"

definition toLowerCase :: "string \<Rightarrow> string" where
  "toLowerCase s = map lower_unit s"

text \<open>The call \<^verbatim>\<open>v.toLowerCase()\<close> on a value: only a string has the method.\<close>

definition call_toLowerCase :: "json option \<Rightarrow> js_error + string" where
  "call_toLowerCase v = (case v of Some (JStr s) \<Rightarrow> Inr (toLowerCase s) | _ \<Rightarrow> Inl TypeError)"

text \<open>The callback of line 141; \<^verbatim>\<open>s.includes(t)\<close> holds when \<open>t\<close> is a contiguous part
  of \<open>s\<close>.\<close>

definition mentions :: "json option \<Rightarrow> json \<Rightarrow> js_error + bool" where
  "mentions aiResponse product =
    and_then (call_toLowerCase aiResponse) (\<lambda>reply.
    and_then (get_prop ''title'' (Some product)) (\<lambda>title.
    and_then (call_toLowerCase title) (\<lambda>t. Inr (sublist t reply))))"

text \<open>\<^verbatim>\<open>Array.prototype.filter\<close> with a callback that may throw: the elements are
  visited in order and the first throw ends the loop.\<close>

fun filter_js :: "('a \<Rightarrow> js_error + bool) \<Rightarrow> 'a list \<Rightarrow> js_error + 'a list" where
  "filter_js f [] = Inr []"
| "filter_js f (x # xs) =
    (case f x of
       Inl e \<Rightarrow> Inl e
     | Inr keep \<Rightarrow>
         (case filter_js f xs of
            Inl e \<Rightarrow> Inl e
          | Inr r \<Rightarrow> Inr (if keep then x # r else r)))"

text \<open>The handler, lines 96 to 153; \<open>reply\<close> is what the language model's provider
  answers. The result is the list of requests posted to it, and the response.\<close>

definition get_response ::
  "string \<Rightarrow> chat_body \<Rightarrow> json provider_reply \<Rightarrow> chat_request list \<times> http_response" where
  "get_response products_text b reply =
    (let request = chat_request_of products_text b in
     case axios_post reply of
       Inl _ \<Rightarrow> ([request], res_error ''AI response failed'')
     | Inr data \<Rightarrow>
         (case content_of data of
            Inl _ \<Rightarrow> ([request], res_error ''AI response failed'')
          | Inr aiResponse \<Rightarrow>
              (case filter_js (mentions aiResponse) (availableProducts b) of
                 Inl _ \<Rightarrow> ([request], res_error ''AI response failed'')
               | Inr recommendedProducts \<Rightarrow>
                   ([request],
                    res_json [(''text'', aiResponse),
                              (''recommendedProducts'',
                               Some (JArr (take 3 recommendedProducts)))]))))"

text \<open>The specification's attribution test: the product has a string title that occurs,
  letter case apart, as a contiguous part of the reply.\<close>

definition title_occurs :: "string \<Rightarrow> json \<Rightarrow> bool" where
  "title_occurs reply product =
    (case get_prop ''title'' (Some product) of
       Inr (Some (JStr t)) \<Rightarrow> sublist (toLowerCase t) (toLowerCase reply)
     | _ \<Rightarrow> False)"

section \<open>Speech synthesis relay: \<^verbatim>\<open>POST /api/speak\<close>\<close>



section \<open>Auxiliary facts\<close>

lemma map_of_stringify_object:
  "distinct (map fst kvs) \<Longrightarrow>
   map_of (stringify_object kvs) k = (case map_of kvs k of Some (Some v) \<Rightarrow> Some v | _ \<Rightarrow> None)"
proof (induction kvs rule: stringify_object.induct)
  case 1
  then show ?case by simp
next
  case (2 k' kvs)
  then show ?case
    by (auto split: option.splits simp: map_of_eq_None_iff[symmetric])
next
  case (3 k' v kvs)
  then show ?case by (auto split: option.splits)
qed

lemma map_of_stringify_object_bind:
  "distinct (map fst kvs) \<Longrightarrow>
   map_of (stringify_object kvs) k = Option.bind (map_of kvs k) (\<lambda>v. v)"
  by (simp add: map_of_stringify_object split: option.splits)


lemma filter_js_result:
  "filter_js f xs = Inr r \<Longrightarrow> r = filter (\<lambda>x. f x = Inr True) xs"
  by (induction xs arbitrary: r) (auto split: sum.splits if_splits)

lemma mentions_title_occurs:
  "(mentions (Some (JStr reply)) p = Inr True) = title_occurs reply p"
  by (auto simp: mentions_def title_occurs_def and_then_def call_toLowerCase_def
      split: sum.splits option.splits json.splits)

lemma subseq_take_filter: "subseq (take n (filter P xs)) xs"
proof -
  have "prefix (take n (filter P xs)) (filter P xs)"
    by (rule take_is_prefix)
  then have "subseq (take n (filter P xs)) (filter P xs)"
    by (rule prefix_imp_subseq)
  moreover have "subseq (filter P xs) xs"
    by simp
  ultimately show ?thesis
    by (rule subseq_order.trans)
qed

section \<open>The filter expression\<close>

text \<open>
  C4. A search request with no category and no tags (the tag list absent or empty) builds
  exactly the in-stock clause, whatever its free-text query is.
\<close>

theorem filter_in_stock_only:
  assumes "category b = None"
    and "tags b = None \<or> tags b = Some []"
  shows "filterFormula b = ''AND({in_stock} = TRUE())''"
  using assms by (auto simp: filterFormula_def)

theorem filter_in_stock_only_witness:
  "category \<lparr>query = Some ''soil for tomatoes'', category = None, tags = Some []\<rparr> = None
   \<and> tags \<lparr>query = Some ''soil for tomatoes'', category = None, tags = Some []\<rparr> = Some []
   \<and> filterFormula \<lparr>query = Some ''soil for tomatoes'', category = None, tags = Some []\<rparr>
       = ''AND({in_stock} = TRUE())''"
  using filter_in_stock_only
    [of "\<lparr>query = Some ''soil for tomatoes'', category = None, tags = Some []\<rparr>"]
  by simp

text \<open>
  C5. For a non-empty tag list the built filter is the rendering of the conjunction of
  the in-stock clause, the category clause when the builder adds one, and one
  disjunction holding a containment predicate on the tags field for each supplied tag,
  in the order of the tags.
\<close>

theorem filter_tags_disjunction:
  assumes "tags b = Some ts" and "ts \<noteq> []"
  shows "filterFormula b =
    render (And ([InStock] @ category_clause (category b) @ [Or (map FindTag ts)]))"
  using assms
  by (auto simp: filterFormula_def category_clause_def comp_def split: option.splits)

theorem filter_tags_disjunction_witness:
  "tags \<lparr>query = None, category = Some ''potting-soil'',
         tags = Some [''organic'', ''drainage'']\<rparr> = Some [''organic'', ''drainage'']
   \<and> [''organic'', ''drainage''] \<noteq> []
   \<and> filterFormula \<lparr>query = None, category = Some ''potting-soil'',
                     tags = Some [''organic'', ''drainage'']\<rparr>
       = ''AND({in_stock} = TRUE(), {category} = 'potting-soil', OR(FIND('organic', {tags}), FIND('drainage', {tags})))''"
  using filter_tags_disjunction
    [of "\<lparr>query = None, category = Some ''potting-soil'',
          tags = Some [''organic'', ''drainage'']\<rparr>" "[''organic'', ''drainage'']"]
  by (simp add: category_clause_def)

text \<open>
  C3, amended. For a search request whose category is a non-empty string, the built
  filter starts with the in-stock clause followed by the equality clause on the category
  field, the category value standing between two single quotes exactly as it was
  received. Without tags, every single quote of the value reaches the filter, which
  has two more; so a value with an odd number of single quotes leaves a literal of the
  filter unterminated.
\<close>

theorem category_clause_verbatim:
  assumes "category b = Some c" and "c \<noteq> []"
  shows "prefix (''AND({in_stock} = TRUE(), {category} = '' @ [CHR 0x27] @ c @ [CHR 0x27])
           (filterFormula b)
    \<and> (tags b = None \<longrightarrow> quote_count (filterFormula b) = quote_count c + 2)
    \<and> (tags b = None \<and> odd (quote_count c) \<longrightarrow> unterminated_literal (filterFormula b))"
  using assms
  by (auto simp: filterFormula_def unterminated_literal_def quote_count_def prefix_def Let_def
      split: option.splits)

theorem category_clause_verbatim_witness:
  "category \<lparr>query = None, category = Some ''it's'', tags = None\<rparr> = Some ''it's''
   \<and> ''it's'' \<noteq> []
   \<and> tags \<lparr>query = None, category = Some ''it's'', tags = None\<rparr> = None
   \<and> odd (quote_count ''it's'')
   \<and> filterFormula \<lparr>query = None, category = Some ''it's'', tags = None\<rparr>
       = ''AND({in_stock} = TRUE(), {category} = 'it's')''
   \<and> quote_count (filterFormula \<lparr>query = None, category = Some ''it's'', tags = None\<rparr>) = 3
   \<and> unterminated_literal
        (filterFormula \<lparr>query = None, category = Some ''it's'', tags = None\<rparr>)"
  using category_clause_verbatim
    [of "\<lparr>query = None, category = Some ''it's'', tags = None\<rparr>" "''it's''"]
  by (simp add: quote_count_def filterFormula_def)

text \<open>The claim as stated fails for a category that is present and empty: the builder
  adds no clause on the category.\<close>

theorem category_empty_counterexample:
  "category \<lparr>query = None, category = Some '''', tags = None\<rparr> = Some ''''
   \<and> filterFormula \<lparr>query = None, category = Some '''', tags = None\<rparr>
       = ''AND({in_stock} = TRUE())''
   \<and> \<not> sublist ''{category}''
         (filterFormula \<lparr>query = None, category = Some '''', tags = None\<rparr>)"
  by (simp add: filterFormula_def sublist_code)

text \<open>
  C6. Two search requests with the same category and the same tags build the same
  filter and the same query parameters, send the same query to the store and, for the
  same answer of the store, respond alike: the free-text query plays no part.
\<close>

theorem query_unused:
  assumes "category b = category b'" and "tags b = tags b'"
  shows "filterFormula b = filterFormula b' \<and> select_of b = select_of b'
     \<and> search_products b reply = search_products b' reply"
  using assms by (simp add: filterFormula_def select_of_def search_products_def)

theorem query_unused_witness:
  "query \<lparr>query = Some ''tomatoes'', category = Some ''potting-soil'', tags = None\<rparr>
     \<noteq> query \<lparr>query = None, category = Some ''potting-soil'', tags = None\<rparr>
   \<and> filterFormula \<lparr>query = Some ''tomatoes'', category = Some ''potting-soil'', tags = None\<rparr>
     = filterFormula \<lparr>query = None, category = Some ''potting-soil'', tags = None\<rparr>
   \<and> search_products
        \<lparr>query = Some ''tomatoes'', category = Some ''potting-soil'', tags = None\<rparr>
        (Records [])
     = search_products
        \<lparr>query = None, category = Some ''potting-soil'', tags = None\<rparr> (Records [])"
  using query_unused
    [of "\<lparr>query = Some ''tomatoes'', category = Some ''potting-soil'', tags = None\<rparr>"
        "\<lparr>query = None, category = Some ''potting-soil'', tags = None\<rparr>" "Records []"]
  by simp

section \<open>Search results\<close>

text \<open>
  C2, amended. The product built for a store record has exactly the properties id,
  product_id, title, brand, category, tags, short_description, price, bag_size_cf,
  in_stock, image_url, use_case and voice_script_30S. In the response, id is the
  record's id, bag_size_cf and use_case are the cells \<^verbatim>\<open>bag-size-cf\<close> and \<^verbatim>\<open>use-case\<close>,
  each of the ten others is the cell of its own name, a property whose cell the record
  lacks is left out, and there is no other property. The response to a search the
  store answers with records holds one such product for each record, in order.
\<close>

theorem product_projection:
  "map fst (product_of r) =
     [''id'', ''product_id'', ''title'', ''brand'', ''category'', ''tags'',
      ''short_description'', ''price'', ''bag_size_cf'', ''in_stock'', ''image_url'',
      ''use_case'', ''voice_script_30S'']
   \<and> map_of (stringify_object (product_of r)) k =
       (if k = ''id'' then Some (JStr (rec_id r))
        else if k = ''bag_size_cf'' then record_get r ''bag-size-cf''
        else if k = ''use_case'' then record_get r ''use-case''
        else if k \<in> set [''product_id'', ''title'', ''brand'', ''category'', ''tags'',
                         ''short_description'', ''price'', ''in_stock'', ''image_url'',
                         ''voice_script_30S'']
        then record_get r k
        else None)
   \<and> (reply = Records rs \<longrightarrow>
        snd (search_products b reply) =
          \<lparr>status = 200,
           body = JsonBody (JObj [(''products'',
                    JArr (map (\<lambda>r. JObj (stringify_object (product_of r))) rs))])\<rparr>)"
proof -
  have d: "distinct (map fst (product_of r))"
    by (simp add: product_of_def)
  show ?thesis
    unfolding map_of_stringify_object_bind[OF d]
    by (simp add: product_of_def search_products_def res_json_def products_json_def)
qed

theorem product_projection_witness:
  "map_of (stringify_object (product_of
      \<lparr>rec_id = ''rec1'',
       rec_fields = [(''title'', JStr ''EcoMix Potting Soil''), (''bag-size-cf'', JNum 2)]\<rparr>))
      ''bag_size_cf'' = Some (JNum 2)
   \<and> snd (search_products \<lparr>query = None, category = None, tags = None\<rparr>
        (Records [\<lparr>rec_id = ''rec1'',
           rec_fields = [(''title'', JStr ''EcoMix Potting Soil''), (''bag-size-cf'', JNum 2)]\<rparr>]))
      = \<lparr>status = 200,
         body = JsonBody (JObj [(''products'',
           JArr [JObj [(''id'', JStr ''rec1''), (''title'', JStr ''EcoMix Potting Soil''),
                       (''bag_size_cf'', JNum 2)]])])\<rparr>"
  using product_projection
    [of "\<lparr>rec_id = ''rec1'',
          rec_fields = [(''title'', JStr ''EcoMix Potting Soil''), (''bag-size-cf'', JNum 2)]\<rparr>"
        "''bag_size_cf''"
        "Records [\<lparr>rec_id = ''rec1'',
           rec_fields = [(''title'', JStr ''EcoMix Potting Soil''), (''bag-size-cf'', JNum 2)]\<rparr>]"
        "[\<lparr>rec_id = ''rec1'',
           rec_fields = [(''title'', JStr ''EcoMix Potting Soil''), (''bag-size-cf'', JNum 2)]\<rparr>]"
        "\<lparr>query = None, category = None, tags = None\<rparr>"]
  by (simp add: product_of_def record_get_def)

text \<open>The claim as stated fails on the names: for a record with every cell, the product
  has the properties bag_size_cf and voice_script_30S, and none named bag_size or
  voice_script.\<close>

theorem product_names_counterexample:
  "map fst (stringify_object (product_of
      \<lparr>rec_id = ''rec1'',
       rec_fields =
         [(''product_id'', JStr ''P-1''), (''title'', JStr ''EcoMix Potting Soil''),
          (''brand'', JStr ''EcoMix''), (''category'', JStr ''potting-soil''),
          (''tags'', JStr ''organic, drainage''), (''short_description'', JStr ''Light mix''),
          (''price'', JNum 12), (''bag-size-cf'', JNum 2), (''in_stock'', JBool True),
          (''image_url'', JStr ''http://img/1''), (''use-case'', JStr ''containers''),
          (''voice_script_30S'', JStr ''Try EcoMix'')]\<rparr>))
    = [''id'', ''product_id'', ''title'', ''brand'', ''category'', ''tags'',
       ''short_description'', ''price'', ''bag_size_cf'', ''in_stock'', ''image_url'',
       ''use_case'', ''voice_script_30S'']
   \<and> [''id'', ''product_id'', ''title'', ''brand'', ''category'', ''tags'',
       ''short_description'', ''price'', ''bag_size_cf'', ''in_stock'', ''image_url'',
       ''use_case'', ''voice_script_30S'']
     \<noteq> [''id'', ''product_id'', ''title'', ''brand'', ''category'', ''tags'',
       ''short_description'', ''price'', ''bag_size'', ''in_stock'', ''image_url'',
       ''use_case'', ''voice_script'']"
  by (simp add: product_of_def record_get_def)

section \<open>Transcription\<close>

text \<open>
  C8. When the provider answers the transcription call with a 2xx status and a JSON
  object whose \<^verbatim>\<open>results\<close> is an object, whose \<^verbatim>\<open>channels\<close> there is an array starting
  with an object, whose \<^verbatim>\<open>alternatives\<close> there is an array starting with an object, and
  whose \<^verbatim>\<open>transcript\<close> there is a string \<open>s\<close>, the endpoint posts the uploaded buffer
  once and responds 200 with \<^verbatim>\<open>{transcript: s}\<close>, \<open>s\<close> being that string unchanged.
\<close>

theorem transcript_round_trip:
  assumes "200 \<le> st" and "st < 300"
    and "map_of data ''results'' = Some (JObj results)"
    and "map_of results ''channels'' = Some (JArr (JObj channel # channels))"
    and "map_of channel ''alternatives'' = Some (JArr (JObj alternative # alternatives))"
    and "map_of alternative ''transcript'' = Some (JStr s)"
  shows "transcribe (Some buf) (HttpReply st (JObj data)) =
     ([buf], \<lparr>status = 200, body = JsonBody (JObj [(''transcript'', JStr s)])\<rparr>)
   \<and> post_transcribe [(''audio'', buf)] (HttpReply st (JObj data)) =
     ([buf], \<lparr>status = 200, body = JsonBody (JObj [(''transcript'', JStr s)])\<rparr>)"
proof -
  from assms(3-6) have path: "transcript_of (JObj data) = Inr (Some (JStr s))"
    by (simp add: transcript_of_def and_then_def get_prop_def elem0_def)
  from assms(1,2) path have handler: "transcribe (Some buf) (HttpReply st (JObj data)) =
     ([buf], \<lparr>status = 200, body = JsonBody (JObj [(''transcript'', JStr s)])\<rparr>)"
    by (simp add: transcribe_def axios_post_def res_json_def)
  have "post_transcribe [(''audio'', buf)] (HttpReply st (JObj data)) =
      transcribe (Some buf) (HttpReply st (JObj data))"
    by (simp add: post_transcribe_def upload_single_def)
  with handler show ?thesis
    by simp
qed

theorem transcript_round_trip_witness:
  "map_of [(''metadata'', JObj [(''request_id'', JStr ''r-1'')]),
           (''results'', JObj [(''channels'',
              JArr [JObj [(''alternatives'',
                JArr [JObj [(''transcript'', JStr ''Which soil for Tomatoes?''),
                            (''confidence'', JNum 1)]])]])])] ''results''
     = Some (JObj [(''channels'',
              JArr [JObj [(''alternatives'',
                JArr [JObj [(''transcript'', JStr ''Which soil for Tomatoes?''),
                            (''confidence'', JNum 1)]])]])])
   \<and> post_transcribe [(''audio'', ''audio-bytes'')]
       (HttpReply 200
         (JObj [(''metadata'', JObj [(''request_id'', JStr ''r-1'')]),
                (''results'', JObj [(''channels'',
                   JArr [JObj [(''alternatives'',
                     JArr [JObj [(''transcript'', JStr ''Which soil for Tomatoes?''),
                                 (''confidence'', JNum 1)]])]])])]))
     = ([''audio-bytes''],
        \<lparr>status = 200,
         body = JsonBody (JObj [(''transcript'', JStr ''Which soil for Tomatoes?'')])\<rparr>)"
proof -
  have st: "(200::nat) \<le> 200" "(200::nat) < 300"
    by simp_all
  have results: "map_of [(''metadata'', JObj [(''request_id'', JStr ''r-1'')]),
           (''results'', JObj [(''channels'',
              JArr [JObj [(''alternatives'',
                JArr [JObj [(''transcript'', JStr ''Which soil for Tomatoes?''),
                            (''confidence'', JNum 1)]])]])])] ''results''
     = Some (JObj [(''channels'',
              JArr [JObj [(''alternatives'',
                JArr [JObj [(''transcript'', JStr ''Which soil for Tomatoes?''),
                            (''confidence'', JNum 1)]])]])])"
    by simp
  have channels: "map_of [(''channels'',
              JArr [JObj [(''alternatives'',
                JArr [JObj [(''transcript'', JStr ''Which soil for Tomatoes?''),
                            (''confidence'', JNum 1)]])]])] ''channels''
     = Some (JArr (JObj [(''alternatives'',
                JArr [JObj [(''transcript'', JStr ''Which soil for Tomatoes?''),
                            (''confidence'', JNum 1)]])] # []))"
    by simp
  have alternatives: "map_of [(''alternatives'',
                JArr [JObj [(''transcript'', JStr ''Which soil for Tomatoes?''),
                            (''confidence'', JNum 1)]])] ''alternatives''
     = Some (JArr (JObj [(''transcript'', JStr ''Which soil for Tomatoes?''),
                            (''confidence'', JNum 1)] # []))"
    by simp
  have transcript: "map_of [(''transcript'', JStr ''Which soil for Tomatoes?''),
                            (''confidence'', JNum 1)] ''transcript''
     = Some (JStr ''Which soil for Tomatoes?'')"
    by simp
  note run = transcript_round_trip
    [OF st results channels alternatives transcript, of "''audio-bytes''", THEN conjunct2]
  from results run show ?thesis
    by (intro conjI)
qed




section \<open>Provider failures\<close>




section \<open>The conversation\<close>

text \<open>
  C9. For a request body of the documented type, whatever the provider answers, the
  handler posts exactly one request to the language model; its message sequence is the
  system instruction, then the conversation history as received, then a user-role
  message whose content is the user message; and the system instruction ends with
  \<^verbatim>\<open>Current customer question: \<close> followed by the user message. So the user message is
  sent twice.
\<close>

theorem user_message_sent_twice:
  "fst (get_response pt b reply) = [chat_request_of pt b]
   \<and> messages (chat_request_of pt b) =
       [JObj [(''role'', JStr ''system''), (''content'', JStr (systemPrompt pt b))]]
       @ conversationHistory b
       @ [JObj [(''role'', JStr ''user''), (''content'', JStr (userMessage b))]]
   \<and> suffix (''Current customer question: '' @ userMessage b) (systemPrompt pt b)"
  by (auto simp: get_response_def chat_request_of_def messages_of_def systemPrompt_def
      Let_def suffix_def split: sum.splits)

theorem user_message_sent_twice_witness:
  "map messages (fst (get_response ''[]''
      \<lparr>userMessage = ''Which soil for roses?'',
       conversationHistory =
         [JObj [(''role'', JStr ''user''), (''content'', JStr ''Hi'')],
          JObj [(''role'', JStr ''assistant''), (''content'', JStr ''Hello!'')]],
       availableProducts = []\<rparr>
      NetworkError))
   = [[JObj [(''role'', JStr ''system''),
             (''content'', JStr (systemPrompt ''[]''
                \<lparr>userMessage = ''Which soil for roses?'',
                 conversationHistory =
                   [JObj [(''role'', JStr ''user''), (''content'', JStr ''Hi'')],
                    JObj [(''role'', JStr ''assistant''), (''content'', JStr ''Hello!'')]],
                 availableProducts = []\<rparr>))],
       JObj [(''role'', JStr ''user''), (''content'', JStr ''Hi'')],
       JObj [(''role'', JStr ''assistant''), (''content'', JStr ''Hello!'')],
       JObj [(''role'', JStr ''user''), (''content'', JStr ''Which soil for roses?'')]]]"
  using user_message_sent_twice
    [of "''[]''"
        "\<lparr>userMessage = ''Which soil for roses?'',
          conversationHistory =
            [JObj [(''role'', JStr ''user''), (''content'', JStr ''Hi'')],
             JObj [(''role'', JStr ''assistant''), (''content'', JStr ''Hello!'')]],
          availableProducts = []\<rparr>"
        NetworkError]
  by simp

section \<open>Recommended products\<close>

text \<open>
  C1, amended. Whenever the conversation endpoint answers with a reply text and a list
  of recommended products, that list is the list of the available products whose title
  occurs, letter case apart, as a contiguous part of the reply text, cut after its
  third element. So it is an order-preserving subsequence of the available products,
  it has at most three elements, the title of each of them occurs in the reply, and
  when at most three available products have such a title, a product is in the list
  if and only if its title occurs in the reply.
\<close>

theorem recommended_products:
  assumes "snd (get_response pt b reply) =
      \<lparr>status = 200,
       body = JsonBody (JObj [(''text'', JStr s), (''recommendedProducts'', JArr rs)])\<rparr>"
  shows "rs = take 3 (filter (title_occurs s) (availableProducts b))
     \<and> subseq rs (availableProducts b)
     \<and> length rs \<le> 3
     \<and> (\<forall>p \<in> set rs. title_occurs s p)
     \<and> (length (filter (title_occurs s) (availableProducts b)) \<le> 3 \<longrightarrow>
          (\<forall>p \<in> set (availableProducts b). (p \<in> set rs) = title_occurs s p))"
proof -
  from assms obtain ai r where
    found: "filter_js (mentions ai) (availableProducts b) = Inr r" and
    same: "res_json [(''text'', ai), (''recommendedProducts'', Some (JArr (take 3 r)))] =
       \<lparr>status = 200,
        body = JsonBody (JObj [(''text'', JStr s), (''recommendedProducts'', JArr rs)])\<rparr>"
    by (auto simp: get_response_def Let_def res_error_def split: sum.splits)
  from same have ai: "ai = Some (JStr s)" and rs: "rs = take 3 r"
    by (cases ai; simp add: res_json_def)+
  from found ai have "r = filter (title_occurs s) (availableProducts b)"
    using filter_js_result[of "mentions ai" "availableProducts b" r]
    by (simp add: mentions_title_occurs)
  with rs have eq: "rs = take 3 (filter (title_occurs s) (availableProducts b))"
    by simp
  have sub: "subseq rs (availableProducts b)"
    unfolding eq by (rule subseq_take_filter)
  have len: "length rs \<le> 3"
    unfolding eq by simp
  have "set rs \<subseteq> set (filter (title_occurs s) (availableProducts b))"
    unfolding eq by (rule set_take_subset)
  then have occ: "\<forall>p \<in> set rs. title_occurs s p"
    by auto
  have all: "length (filter (title_occurs s) (availableProducts b)) \<le> 3 \<longrightarrow>
      (\<forall>p \<in> set (availableProducts b). (p \<in> set rs) = title_occurs s p)"
    unfolding eq by auto
  from eq sub len occ all show ?thesis
    by (intro conjI)
qed

theorem recommended_products_witness:
  "snd (get_response
      ''[\<newline>  {\<newline>    \"title\": \"EcoMix Potting Soil\"\<newline>  },\<newline>  {\<newline>    \"title\": \"Cactus Blend\"\<newline>  }\<newline>]''
      \<lparr>userMessage = ''Which soil for tomatoes?'', conversationHistory = [],
       availableProducts = [JObj [(''title'', JStr ''EcoMix Potting Soil'')],
                            JObj [(''title'', JStr ''Cactus Blend'')]]\<rparr>
      (HttpReply 200 (JObj [(''choices'', JArr [JObj [(''message'',
         JObj [(''role'', JStr ''assistant''),
               (''content'', JStr ''Try the ECOMIX potting soil.'')])]])])))
    = \<lparr>status = 200,
       body = JsonBody (JObj [(''text'', JStr ''Try the ECOMIX potting soil.''),
         (''recommendedProducts'', JArr [JObj [(''title'', JStr ''EcoMix Potting Soil'')]])])\<rparr>
   \<and> [JObj [(''title'', JStr ''EcoMix Potting Soil'')]] =
       take 3 (filter (title_occurs ''Try the ECOMIX potting soil.'')
         [JObj [(''title'', JStr ''EcoMix Potting Soil'')],
          JObj [(''title'', JStr ''Cactus Blend'')]])
   \<and> subseq [JObj [(''title'', JStr ''EcoMix Potting Soil'')]]
         [JObj [(''title'', JStr ''EcoMix Potting Soil'')],
          JObj [(''title'', JStr ''Cactus Blend'')]]
   \<and> title_occurs ''Try the ECOMIX potting soil.''
         (JObj [(''title'', JStr ''EcoMix Potting Soil'')])
   \<and> \<not> title_occurs ''Try the ECOMIX potting soil.'' (JObj [(''title'', JStr ''Cactus Blend'')])"
proof -
  have named: "title_occurs ''Try the ECOMIX potting soil.''
         (JObj [(''title'', JStr ''EcoMix Potting Soil'')])"
    by code_simp
  have unnamed: "\<not> title_occurs ''Try the ECOMIX potting soil.''
         (JObj [(''title'', JStr ''Cactus Blend'')])"
    by code_simp
  have run: "snd (get_response
      ''[\<newline>  {\<newline>    \"title\": \"EcoMix Potting Soil\"\<newline>  },\<newline>  {\<newline>    \"title\": \"Cactus Blend\"\<newline>  }\<newline>]''
      \<lparr>userMessage = ''Which soil for tomatoes?'', conversationHistory = [],
       availableProducts = [JObj [(''title'', JStr ''EcoMix Potting Soil'')],
                            JObj [(''title'', JStr ''Cactus Blend'')]]\<rparr>
      (HttpReply 200 (JObj [(''choices'', JArr [JObj [(''message'',
         JObj [(''role'', JStr ''assistant''),
               (''content'', JStr ''Try the ECOMIX potting soil.'')])]])])))
    = \<lparr>status = 200,
       body = JsonBody (JObj [(''text'', JStr ''Try the ECOMIX potting soil.''),
         (''recommendedProducts'', JArr [JObj [(''title'', JStr ''EcoMix Potting Soil'')]])])\<rparr>"
    by code_simp
  note facts = recommended_products[OF run, simplified chat_body.select_convs]
  note list = facts[THEN conjunct1]
  note sub = facts[THEN conjunct2, THEN conjunct1]
  from run list sub named unnamed show ?thesis
    by (intro conjI)
qed

text \<open>The claim as stated fails when more than three products are named in the reply:
  the fourth is left out although its title occurs in the reply text.\<close>

theorem recommended_cap_counterexample:
  "snd (get_response
      ''[\<newline>  {\<newline>    \"title\": \"Loam\"\<newline>  },\<newline>  {\<newline>    \"title\": \"Peat\"\<newline>  },\<newline>  {\<newline>    \"title\": \"Sand\"\<newline>  },\<newline>  {\<newline>    \"title\": \"Bark\"\<newline>  }\<newline>]''
      \<lparr>userMessage = ''What do you have?'', conversationHistory = [],
       availableProducts = [JObj [(''title'', JStr ''Loam'')], JObj [(''title'', JStr ''Peat'')],
                            JObj [(''title'', JStr ''Sand'')], JObj [(''title'', JStr ''Bark'')]]\<rparr>
      (HttpReply 200 (JObj [(''choices'', JArr [JObj [(''message'',
         JObj [(''role'', JStr ''assistant''),
               (''content'', JStr ''We have loam, peat, sand and bark.'')])]])])))
    = \<lparr>status = 200,
       body = JsonBody (JObj [(''text'', JStr ''We have loam, peat, sand and bark.''),
         (''recommendedProducts'',
          JArr [JObj [(''title'', JStr ''Loam'')], JObj [(''title'', JStr ''Peat'')],
                JObj [(''title'', JStr ''Sand'')]])])\<rparr>
   \<and> title_occurs ''We have loam, peat, sand and bark.'' (JObj [(''title'', JStr ''Bark'')])
   \<and> JObj [(''title'', JStr ''Bark'')] \<notin>
       set [JObj [(''title'', JStr ''Loam'')], JObj [(''title'', JStr ''Peat'')],
            JObj [(''title'', JStr ''Sand'')]]"
  by code_simp

end
